theory Spec2Isabelle
  imports Complex_Main
begin

section \<open>Data model\<close>

text \<open>
  The TypeScript sources compute with the type \<^verbatim>\<open>number\<close>, an IEEE-754 double. A value of
  type \<^verbatim>\<open>number\<close> is a real number here; the values NaN, Infinity and negative zero are
  not inputs. The max-pain calculation, the spread enumeration behind the bounds and the order
  of its result, the ATM selection and the order-flow heuristic are modelled with exact
  arithmetic. Where a property depends on the computed value itself (the threshold test of the
  anomaly detector, the economics of a spread), every arithmetic operation is rounded to
  double precision, as the engine performs it. Where the source can divide by zero
  (\<^verbatim>\<open>distance / underlyingPrice\<close> in the ATM selection) or starts from \<^verbatim>\<open>Infinity\<close> (the
  running minimum of the max-pain loop), the model writes out what JavaScript does there.
\<close>

type_synonym number = real

datatype PutCall = PUT | CALL

text \<open>
  \<^verbatim>\<open>OptionContract\<close> of \<^verbatim>\<open>server/types/schwab.ts\<close>, with the fields the analytics read.
  The record is extensible, so the remaining fields of the interface are the \<open>more\<close> part.
\<close>

record OptionContract =
  putCall :: PutCall
  symbol :: string
  bid :: number
  ask :: number
  mark :: number
  totalVolume :: number
  delta :: number
  openInterest :: number
  strikePrice :: number

text \<open>
  The object handed to \<^verbatim>\<open>supabaseService.storeNakedPosition\<close>. Its fields carry the
  prefix \<open>np_\<close>, since several of them share their names with those of the contract.
\<close>

record NakedPosition =
  np_symbol :: string
  np_optionSymbol :: string
  np_strikePrice :: number
  np_optionType :: PutCall
  np_volume :: number
  np_openInterest :: number
  np_volumeOiRatio :: number
  np_thresholdMultiplier :: number
  np_bid :: number
  np_ask :: number
  np_mark :: number
  np_underlyingPrice :: number

text \<open>\<^verbatim>\<open>ATMOption\<close> of \<^verbatim>\<open>server/services/atm-trade-analyzer.ts\<close>.\<close>

record ATMOption =
  atm_symbol :: string
  optionType :: PutCall
  contract :: OptionContract
  distanceFromATM :: number
  isATM :: bool

datatype Signal = BULLISH | BEARISH | NEUTRAL

record OrderFlow =
  hasUnusualVolume :: bool
  volumeOIRatio :: number
  signal :: Signal

section \<open>Double-precision arithmetic\<close>

text \<open>
  IEEE-754 binary64 has 53 significant bits and exponents from \<open>-1022\<close> to \<open>1023\<close>. For
  \<open>x \<noteq> 0\<close> let \<open>e\<close> be the exponent of \<open>\<bar>x\<bar>\<close>, that is \<open>2 ^ e \<le> \<bar>x\<bar> < 2 ^ (e + 1)\<close>, kept
  within the exponent range (below \<open>2 ^ - 1022\<close> the numbers are subnormal and share the
  quantum \<open>2 ^ - 1074\<close>). The double nearest to \<open>x\<close> is the multiple of the quantum
  \<open>2 ^ (e - 52)\<close> nearest to \<open>x\<close>, the one with the even multiplier when two are equally
  near. Overflow to \<^verbatim>\<open>Infinity\<close> (from \<open>2 ^ 1024\<close> on) is outside the model.
\<close>

function expUp :: "real \<Rightarrow> int \<Rightarrow> int" where
  "expUp x e = (if 2 \<le> x \<and> e < 1023 then expUp (x / 2) (e + 1) else e)"
  by pat_completeness auto
termination
  by (relation "measure (\<lambda>(x, e). nat (1023 - e))") auto

function expDown :: "real \<Rightarrow> int \<Rightarrow> int" where
  "expDown x e = (if x < 1 \<and> - 1022 < e then expDown (2 * x) (e - 1) else e)"
  by pat_completeness auto
termination
  by (relation "measure (\<lambda>(x, e). nat (e + 1022))") auto

definition pow2 :: "int \<Rightarrow> real" where
  "pow2 e = (if 0 \<le> e then 2 ^ nat e else 1 / 2 ^ nat (- e))"

definition roundHalfEven :: "real \<Rightarrow> int" where
  "roundHalfEven m =
     (let n = \<lfloor>m\<rfloor>; r = m - of_int n
      in if r < 1 / 2 then n else if 1 / 2 < r then n + 1 else if even n then n else n + 1)"

definition round64 :: "real \<Rightarrow> real" where
  "round64 x =
     (if x = 0 then 0
      else
        (let a = \<bar>x\<bar>;
             e = (if 1 \<le> a then expUp a 0 else expDown a 0);
             q = pow2 (e - 52)
         in sgn x * of_int (roundHalfEven (a / q)) * q))"

text \<open>
  The four operations of JavaScript on doubles: the exact result, rounded. A decimal literal
  such as \<^verbatim>\<open>1.15\<close> denotes \<open>round64 1.15\<close>. The quotient is used only with a divisor that
  is not zero.
\<close>

definition dblAdd :: "number \<Rightarrow> number \<Rightarrow> number" where
  "dblAdd a b = round64 (a + b)"

definition dblSub :: "number \<Rightarrow> number \<Rightarrow> number" where
  "dblSub a b = round64 (a - b)"

definition dblMul :: "number \<Rightarrow> number \<Rightarrow> number" where
  "dblMul a b = round64 (a * b)"

definition dblDiv :: "number \<Rightarrow> number \<Rightarrow> number" where
  "dblDiv a b = round64 (a / b)"

section \<open>Order-flow heuristic\<close>

text \<open>
  \<^verbatim>\<open>ATMTradeAnalyzer.analyzeOrderFlow\<close>. The division is under the guard
  \<^verbatim>\<open>openInterest > 0\<close>, as in the source.
\<close>

definition analyzeOrderFlow :: "ATMOption \<Rightarrow> OrderFlow" where
  "analyzeOrderFlow opt =
     (let volume = totalVolume (contract opt);
          oi = openInterest (contract opt);
          ratio = (if oi > 0 then volume / oi else 0);
          unusual = (ratio > 0.5);
          sig = (if unusual then
                   (if optionType opt = CALL \<and> bid (contract opt) > ask (contract opt) * 0.9
                      then BULLISH
                    else if optionType opt = PUT \<and> bid (contract opt) > ask (contract opt) * 0.9
                      then BEARISH
                    else NEUTRAL)
                 else NEUTRAL)
      in \<lparr> hasUnusualVolume = unusual, volumeOIRatio = ratio, signal = sig \<rparr>)"

section \<open>Anomaly detector\<close>

text \<open>
  \<^verbatim>\<open>DataCollector.checkNakedPosition\<close>. The method returns nothing; its effect is the
  call of \<^verbatim>\<open>storeNakedPosition\<close>, so the model returns the stored object, and \<open>None\<close>
  on the early return and when the threshold test fails. \<open>NAKED_THRESHOLD\<close> is read from the
  environment (default \<open>1.5\<close>), so it is a parameter. The product
  \<^verbatim>\<open>openInterest * NAKED_THRESHOLD\<close> and the quotient \<^verbatim>\<open>volume / openInterest\<close> are the
  double-precision ones.
\<close>

definition DEFAULT_NAKED_THRESHOLD :: number where
  "DEFAULT_NAKED_THRESHOLD = 1.5"

definition checkNakedPosition ::
    "number \<Rightarrow> string \<Rightarrow> OptionContract \<Rightarrow> number \<Rightarrow> NakedPosition option" where
  "checkNakedPosition NAKED_THRESHOLD ticker c underlying =
     (let volume = totalVolume c;
          oi = openInterest c
      in if volume = 0 \<or> oi = 0 then None
         else
           (let volumeOiRatio = dblDiv volume oi
            in if volume > dblMul oi NAKED_THRESHOLD then
                 Some \<lparr> np_symbol = ticker,
                        np_optionSymbol = symbol c,
                        np_strikePrice = strikePrice c,
                        np_optionType = putCall c,
                        np_volume = volume,
                        np_openInterest = oi,
                        np_volumeOiRatio = volumeOiRatio,
                        np_thresholdMultiplier = NAKED_THRESHOLD,
                        np_bid = bid c,
                        np_ask = ask c,
                        np_mark = mark c,
                        np_underlyingPrice = underlying \<rparr>
               else None))"

section \<open>Collector lifecycle\<close>

text \<open>
  The two private fields of \<^verbatim>\<open>DataCollector\<close> that \<^verbatim>\<open>start\<close> and \<^verbatim>\<open>stop\<close> touch.
  A timer handle is a natural number; \<open>None\<close> is \<^verbatim>\<open>null\<close>. A handle is an object, hence
  truthy, so \<^verbatim>\<open>!this.intervalId\<close> holds exactly for \<^verbatim>\<open>null\<close>.
\<close>

record DataCollector =
  intervalId :: "nat option"
  isRunning :: bool

text \<open>
  The part of the runtime the two methods act on: the interval timers that are armed, the
  next handle \<^verbatim>\<open>setInterval\<close> gives out, and the number of collection cycles launched.
\<close>

record Runtime =
  activeTimers :: "nat list"
  nextHandle :: nat
  cyclesLaunched :: nat

definition newDataCollector :: DataCollector where
  "newDataCollector = \<lparr> intervalId = None, isRunning = False \<rparr>"

definition setInterval :: "Runtime \<Rightarrow> nat \<times> Runtime" where
  "setInterval rt =
     (nextHandle rt,
      rt\<lparr> activeTimers := activeTimers rt @ [nextHandle rt], nextHandle := Suc (nextHandle rt) \<rparr>)"

definition clearInterval :: "nat \<Rightarrow> Runtime \<Rightarrow> Runtime" where
  "clearInterval h rt = rt\<lparr> activeTimers := removeAll h (activeTimers rt) \<rparr>"

definition collectData :: "Runtime \<Rightarrow> Runtime" where
  "collectData rt = rt\<lparr> cyclesLaunched := Suc (cyclesLaunched rt) \<rparr>"

definition start :: "DataCollector \<times> Runtime \<Rightarrow> DataCollector \<times> Runtime" where
  "start s =
     (case s of (this, rt) \<Rightarrow>
        if isRunning this then (this, rt)
        else
          (case setInterval (collectData rt) of (h, rt') \<Rightarrow>
             (this\<lparr> intervalId := Some h, isRunning := True \<rparr>, rt')))"

definition stop :: "DataCollector \<times> Runtime \<Rightarrow> DataCollector \<times> Runtime" where
  "stop s =
     (case s of (this, rt) \<Rightarrow>
        if \<not> isRunning this \<or> intervalId this = None then (this, rt)
        else
          (case intervalId this of
             None \<Rightarrow> (this, rt)
           | Some h \<Rightarrow> (this\<lparr> intervalId := None, isRunning := False \<rparr>, clearInterval h rt)))"

text \<open>The state invariant of the collector: running exactly when a timer handle is held.\<close>

definition collectorInv :: "DataCollector \<Rightarrow> bool" where
  "collectorInv this \<longleftrightarrow> (isRunning this \<longleftrightarrow> intervalId this \<noteq> None)"

section \<open>Max pain\<close>

text \<open>
  \<^verbatim>\<open>calculateMaxPain\<close> of \<^verbatim>\<open>server/routes/schwab.ts\<close>. The \<^verbatim>\<open>Map\<close> from strike to
  \<^verbatim>\<open>{ callOI, putOI }\<close> is an association list in insertion order, which is the order in
  which \<^verbatim>\<open>entries()\<close> iterates: \<^verbatim>\<open>set\<close> on a key that is present keeps the key's place,
  \<^verbatim>\<open>set\<close> on a new key appends it.
\<close>

record StrikeOI =
  callOI :: number
  putOI :: number

type_synonym StrikeMap = "(number \<times> StrikeOI) list"

fun mapSet :: "number \<Rightarrow> StrikeOI \<Rightarrow> StrikeMap \<Rightarrow> StrikeMap" where
  "mapSet k v [] = [(k, v)]"
| "mapSet k v ((k', v') # rest) =
     (if k' = k then (k, v) # rest else (k', v') # mapSet k v rest)"

definition mapGetOrZero :: "StrikeMap \<Rightarrow> number \<Rightarrow> StrikeOI" where
  "mapGetOrZero m k =
     (case map_of m k of Some existing \<Rightarrow> existing | None \<Rightarrow> \<lparr> callOI = 0, putOI = 0 \<rparr>)"

fun aggregateCalls :: "OptionContract list \<Rightarrow> StrikeMap \<Rightarrow> StrikeMap" where
  "aggregateCalls [] strikeMap = strikeMap"
| "aggregateCalls (call # calls) strikeMap =
     (let existing = mapGetOrZero strikeMap (strikePrice call)
      in aggregateCalls calls
           (mapSet (strikePrice call)
              (existing\<lparr> callOI := callOI existing + openInterest call \<rparr>) strikeMap))"

fun aggregatePuts :: "OptionContract list \<Rightarrow> StrikeMap \<Rightarrow> StrikeMap" where
  "aggregatePuts [] strikeMap = strikeMap"
| "aggregatePuts (put # puts) strikeMap =
     (let existing = mapGetOrZero strikeMap (strikePrice put)
      in aggregatePuts puts
           (mapSet (strikePrice put)
              (existing\<lparr> putOI := putOI existing + openInterest put \<rparr>) strikeMap))"

text \<open>The inner loop: the pain accumulated over the entries if the price settles at \<open>strike\<close>.\<close>

fun painLoop :: "number \<Rightarrow> StrikeMap \<Rightarrow> number \<Rightarrow> number" where
  "painLoop strike [] pain = pain"
| "painLoop strike ((otherStrike, other) # rest) pain =
     (let pain1 = (if otherStrike < strike
                   then pain + callOI other * (strike - otherStrike) * 100 else pain);
          pain2 = (if otherStrike > strike
                   then pain1 + putOI other * (otherStrike - strike) * 100 else pain1)
      in painLoop strike rest pain2)"

text \<open>
  The outer loop, over the entries still to visit, with the pair
  \<^verbatim>\<open>(maxPainStrike, minPain)\<close> as its state. \<^verbatim>\<open>minPain\<close> starts as \<^verbatim>\<open>Infinity\<close>, which is
  \<open>None\<close> here: every pain is below it.
\<close>

fun strikeLoop :: "StrikeMap \<Rightarrow> StrikeMap \<Rightarrow> number \<times> number option \<Rightarrow> number \<times> number option" where
  "strikeLoop strikeMap [] st = st"
| "strikeLoop strikeMap ((strike, oi) # rest) (maxPainStrike, minPain) =
     (let pain = painLoop strike strikeMap 0
      in if (case minPain of None \<Rightarrow> True | Some m \<Rightarrow> pain < m)
         then strikeLoop strikeMap rest (strike, Some pain)
         else strikeLoop strikeMap rest (maxPainStrike, minPain))"

definition calculateMaxPain :: "OptionContract list \<Rightarrow> OptionContract list \<Rightarrow> number" where
  "calculateMaxPain calls puts =
     (let strikeMap = aggregatePuts puts (aggregateCalls calls [])
      in fst (strikeLoop strikeMap strikeMap (0, None)))"

subsection \<open>The max-pain rule as the specification words it\<close>

text \<open>
  The set of distinct strikes present in either list, the open interest of a strike on each
  side, and the pain at a settlement strike \<open>S\<close> as the two sums of the specification.
\<close>

definition specStrikes :: "OptionContract list \<Rightarrow> OptionContract list \<Rightarrow> number set" where
  "specStrikes calls puts = strikePrice ` set calls \<union> strikePrice ` set puts"

definition specOpenInterest :: "OptionContract list \<Rightarrow> number \<Rightarrow> number" where
  "specOpenInterest cs K = sum_list (map openInterest (filter (\<lambda>c. strikePrice c = K) cs))"

definition specPain :: "OptionContract list \<Rightarrow> OptionContract list \<Rightarrow> number \<Rightarrow> number" where
  "specPain calls puts S =
     (\<Sum>K \<in> {K \<in> specStrikes calls puts. K < S}. specOpenInterest calls K * (S - K) * 100)
   + (\<Sum>K \<in> {K \<in> specStrikes calls puts. K > S}. specOpenInterest puts K * (K - S) * 100)"

subsection \<open>The order in which the strikes are encountered\<close>

text \<open>
  Each element of a list once, in the order of first occurrence; and the candidate strikes
  of a chain in the order of their first appearance, the calls' strikes before the puts'.
\<close>

definition firstOccurrences :: "number list \<Rightarrow> number list" where
  "firstOccurrences xs = rev (remdups (rev xs))"

definition strikeOrder :: "OptionContract list \<Rightarrow> OptionContract list \<Rightarrow> number list" where
  "strikeOrder calls puts = firstOccurrences (map strikePrice calls @ map strikePrice puts)"

section \<open>Credit spreads\<close>

text \<open>\<^verbatim>\<open>SpreadOpportunity\<close> and \<^verbatim>\<open>CreditSpreadAnalyzer.calculateCreditSpreads\<close>.\<close>

record SpreadOpportunity =
  spreadType :: PutCall
  shortStrike :: number
  longStrike :: number
  shortOption :: OptionContract
  longOption :: OptionContract
  creditReceived :: number
  maxProfit :: number
  maxLoss :: number
  breakEven :: number
  riskRewardRatio :: number
  probabilityOfProfit :: number
  deltaSpread :: number
  width :: number

definition MIN_CREDIT :: number where "MIN_CREDIT = 0.50"
definition MAX_WIDTH :: number where "MAX_WIDTH = 50"
definition MIN_WIDTH :: number where "MIN_WIDTH = 5"

text \<open>
  The body of the inner loop for the pair \<open>(opt1, opt2)\<close>: \<open>None\<close> is \<^verbatim>\<open>continue\<close>,
  \<open>Some s\<close> is \<^verbatim>\<open>spreads.push(s)\<close>.
\<close>

definition spreadOfPair ::
    "PutCall \<Rightarrow> OptionContract \<Rightarrow> OptionContract \<Rightarrow> SpreadOpportunity option" where
  "spreadOfPair ty opt1 opt2 =
     (let shortOpt = (if ty = CALL then opt1 else opt2);
          longOpt = (if ty = CALL then opt2 else opt1);
          w = \<bar>strikePrice shortOpt - strikePrice longOpt\<bar>
      in if w < MIN_WIDTH \<or> w > MAX_WIDTH then None
         else
           (let credit = bid shortOpt - ask longOpt
            in if credit < MIN_CREDIT then None
               else
                 (let profit = credit * 100;
                      loss = (w - credit) * 100;
                      even = (if ty = CALL then strikePrice shortOpt + credit
                              else strikePrice shortOpt - credit);
                      ratio = (if loss > 0 then profit / loss else 0);
                      pop = (if ty = CALL then (1 - \<bar>delta shortOpt\<bar>) * 100
                             else \<bar>delta shortOpt\<bar> * 100);
                      dspread = \<bar>delta shortOpt - delta longOpt\<bar>
                  in Some \<lparr> spreadType = ty,
                            shortStrike = strikePrice shortOpt,
                            longStrike = strikePrice longOpt,
                            shortOption = shortOpt,
                            longOption = longOpt,
                            creditReceived = credit,
                            maxProfit = profit,
                            maxLoss = loss,
                            breakEven = even,
                            riskRewardRatio = ratio,
                            probabilityOfProfit = pop,
                            deltaSpread = dspread,
                            width = w \<rparr>)))"

text \<open>The loop over \<open>j\<close> (the options after \<open>opt1\<close>) and the loop over \<open>i\<close>.\<close>

fun innerLoop ::
    "PutCall \<Rightarrow> OptionContract \<Rightarrow> OptionContract list \<Rightarrow> SpreadOpportunity list
       \<Rightarrow> SpreadOpportunity list" where
  "innerLoop ty opt1 [] spreads = spreads"
| "innerLoop ty opt1 (opt2 # rest) spreads =
     innerLoop ty opt1 rest
       (case spreadOfPair ty opt1 opt2 of None \<Rightarrow> spreads | Some s \<Rightarrow> spreads @ [s])"

fun outerLoop ::
    "PutCall \<Rightarrow> OptionContract list \<Rightarrow> SpreadOpportunity list \<Rightarrow> SpreadOpportunity list" where
  "outerLoop ty [] spreads = spreads"
| "outerLoop ty (opt1 # rest) spreads = outerLoop ty rest (innerLoop ty opt1 rest spreads)"

text \<open>
  \<^verbatim>\<open>Array.prototype.sort\<close> is stable, and so is \<open>sort_key\<close>. The comparator
  \<^verbatim>\<open>(a, b) => b.riskRewardRatio - a.riskRewardRatio\<close> orders by descending ratio, that is
  ascending by the negated ratio. The third parameter is not read by the source.
\<close>

definition calculateCreditSpreads ::
    "OptionContract list \<Rightarrow> PutCall \<Rightarrow> number \<Rightarrow> SpreadOpportunity list" where
  "calculateCreditSpreads options ty underlying =
     (let filteredOptions = sort_key strikePrice (filter (\<lambda>opt. putCall opt = ty) options)
      in sort_key (\<lambda>s. - riskRewardRatio s) (outerLoop ty filteredOptions []))"

subsection \<open>The enumeration in double precision\<close>

text \<open>
  \<^verbatim>\<open>calculateCreditSpreads\<close> once more, with every subtraction, addition, multiplication and
  division of the loop body rounded to double precision; \<^verbatim>\<open>Math.abs\<close> is exact. The two
  comparators are differences of doubles, whose sign is the sign of the exact difference, so
  the two sorts are the same as above.
\<close>

definition spreadOfPair64 ::
    "PutCall \<Rightarrow> OptionContract \<Rightarrow> OptionContract \<Rightarrow> SpreadOpportunity option" where
  "spreadOfPair64 ty opt1 opt2 =
     (let shortOpt = (if ty = CALL then opt1 else opt2);
          longOpt = (if ty = CALL then opt2 else opt1);
          w = \<bar>dblSub (strikePrice shortOpt) (strikePrice longOpt)\<bar>
      in if w < MIN_WIDTH \<or> w > MAX_WIDTH then None
         else
           (let credit = dblSub (bid shortOpt) (ask longOpt)
            in if credit < MIN_CREDIT then None
               else
                 (let profit = dblMul credit 100;
                      loss = dblMul (dblSub w credit) 100;
                      even = (if ty = CALL then dblAdd (strikePrice shortOpt) credit
                              else dblSub (strikePrice shortOpt) credit);
                      ratio = (if loss > 0 then dblDiv profit loss else 0);
                      pop = (if ty = CALL then dblMul (dblSub 1 \<bar>delta shortOpt\<bar>) 100
                             else dblMul \<bar>delta shortOpt\<bar> 100);
                      dspread = \<bar>dblSub (delta shortOpt) (delta longOpt)\<bar>
                  in Some \<lparr> spreadType = ty,
                            shortStrike = strikePrice shortOpt,
                            longStrike = strikePrice longOpt,
                            shortOption = shortOpt,
                            longOption = longOpt,
                            creditReceived = credit,
                            maxProfit = profit,
                            maxLoss = loss,
                            breakEven = even,
                            riskRewardRatio = ratio,
                            probabilityOfProfit = pop,
                            deltaSpread = dspread,
                            width = w \<rparr>)))"

fun innerLoop64 ::
    "PutCall \<Rightarrow> OptionContract \<Rightarrow> OptionContract list \<Rightarrow> SpreadOpportunity list
       \<Rightarrow> SpreadOpportunity list" where
  "innerLoop64 ty opt1 [] spreads = spreads"
| "innerLoop64 ty opt1 (opt2 # rest) spreads =
     innerLoop64 ty opt1 rest
       (case spreadOfPair64 ty opt1 opt2 of None \<Rightarrow> spreads | Some s \<Rightarrow> spreads @ [s])"

fun outerLoop64 ::
    "PutCall \<Rightarrow> OptionContract list \<Rightarrow> SpreadOpportunity list \<Rightarrow> SpreadOpportunity list" where
  "outerLoop64 ty [] spreads = spreads"
| "outerLoop64 ty (opt1 # rest) spreads =
     outerLoop64 ty rest (innerLoop64 ty opt1 rest spreads)"

definition calculateCreditSpreads64 ::
    "OptionContract list \<Rightarrow> PutCall \<Rightarrow> number \<Rightarrow> SpreadOpportunity list" where
  "calculateCreditSpreads64 options ty underlying =
     (let filteredOptions = sort_key strikePrice (filter (\<lambda>opt. putCall opt = ty) options)
      in sort_key (\<lambda>s. - riskRewardRatio s) (outerLoop64 ty filteredOptions []))"

section \<open>ATM selection\<close>

definition ATM_THRESHOLD :: number where "ATM_THRESHOLD = 0.02"

text \<open>
  \<^verbatim>\<open>distance / underlyingPrice\<close>: the dividend is an absolute value, so with a zero divisor
  JavaScript yields \<^verbatim>\<open>Infinity\<close> or \<^verbatim>\<open>NaN\<close>, and \<^verbatim>\<open><= 0.02\<close> is false for both. \<open>None\<close>
  stands for these two values.
\<close>

definition jsDivide :: "number \<Rightarrow> number \<Rightarrow> number option" where
  "jsDivide x y = (if y = 0 then None else Some (x / y))"

definition toATMOption :: "string \<Rightarrow> PutCall \<Rightarrow> number \<Rightarrow> OptionContract \<Rightarrow> ATMOption" where
  "toATMOption ticker ty underlying c =
     (let distance = \<bar>strikePrice c - underlying\<bar>;
          percentDistance = jsDivide distance underlying
      in \<lparr> atm_symbol = ticker,
           optionType = ty,
           contract = c,
           distanceFromATM = distance,
           isATM = (case percentDistance of None \<Rightarrow> False | Some p \<Rightarrow> p \<le> ATM_THRESHOLD) \<rparr>)"

definition findNearestStrikes ::
    "string \<Rightarrow> number \<Rightarrow> OptionContract list \<Rightarrow> PutCall \<Rightarrow> ATMOption list" where
  "findNearestStrikes ticker underlying options ty =
     take 3
       (sort_key distanceFromATM
          (filter isATM
             (map (toATMOption ticker ty underlying)
                (filter (\<lambda>opt. putCall opt = ty) options))))"

record ATMResult =
  atmCalls :: "ATMOption list"
  atmPuts :: "ATMOption list"

definition findATMOptions ::
    "string \<Rightarrow> OptionContract list \<Rightarrow> OptionContract list \<Rightarrow> number \<Rightarrow> ATMResult" where
  "findATMOptions ticker calls puts underlying =
     \<lparr> atmCalls = findNearestStrikes ticker underlying calls CALL,
       atmPuts = findNearestStrikes ticker underlying puts PUT \<rparr>"

section \<open>Sample contracts\<close>

text \<open>A contract with the given side, strike, bid, ask, volume and open interest.\<close>

definition sampleContract ::
    "PutCall \<Rightarrow> number \<Rightarrow> number \<Rightarrow> number \<Rightarrow> number \<Rightarrow> number \<Rightarrow> OptionContract" where
  "sampleContract ty strike b a vol oi =
     \<lparr> putCall = ty, symbol = ''SPY'', bid = b, ask = a, mark = (b + a) / 2,
       totalVolume = vol, delta = 0.5, openInterest = oi, strikePrice = strike \<rparr>"

text \<open>
  The chain of the end-to-end scenario: calls at 640, 645, 650 with open interest 100, 50, 30
  and puts at the same strikes with open interest 40, 60, 90.
\<close>

definition scenarioCalls :: "OptionContract list" where
  "scenarioCalls =
     [sampleContract CALL 640 1 1 0 100, sampleContract CALL 645 1 1 0 50,
      sampleContract CALL 650 1 1 0 30]"

definition scenarioPuts :: "OptionContract list" where
  "scenarioPuts =
     [sampleContract PUT 640 1 1 0 40, sampleContract PUT 645 1 1 0 60,
      sampleContract PUT 650 1 1 0 90]"





definition rankedCalls :: "OptionContract list" where
  "rankedCalls =
     [sampleContract CALL 650 3.00 3.10 0 0, sampleContract CALL 655 2.50 2.50 0 0,
      sampleContract CALL 660 0.40 0.50 0 0]"

definition callPairDescending :: "OptionContract list" where
  "callPairDescending =
     [sampleContract CALL 655 0.50 0.60 0 0, sampleContract CALL 650 1.20 1.30 0 0]"

definition putPair :: "OptionContract list" where
  "putPair = [sampleContract PUT 640 0.40 0.50 0 0, sampleContract PUT 645 1.30 1.40 0 0]"

text \<open>
  The quotes of the end-to-end CALL spread (short 650 bid 1.20, long 655 ask 0.60) and of a
  PUT pair, as the doubles their decimal literals denote.
\<close>

definition scenarioSpreadCalls :: "OptionContract list" where
  "scenarioSpreadCalls =
     [sampleContract CALL 650 (round64 1.20) (round64 1.30) 0 0,
      sampleContract CALL 655 (round64 0.50) (round64 0.60) 0 0]"

definition putPair64 :: "OptionContract list" where
  "putPair64 =
     [sampleContract PUT 640 (round64 0.40) (round64 0.50) 0 0,
      sampleContract PUT 645 (round64 1.30) (round64 1.40) 0 0]"

definition nearCalls :: "OptionContract list" where
  "nearCalls =
     [sampleContract CALL 640 9 9 0 0, sampleContract CALL 655 1 1 0 0,
      sampleContract CALL 651 2 2 0 0, sampleContract CALL 700 0 0 0 0,
      sampleContract CALL 648 4 4 0 0, sampleContract CALL 650 3 3 0 0]"

definition nearPuts :: "OptionContract list" where
  "nearPuts = [sampleContract PUT 630 1 1 0 0, sampleContract PUT 663 9 9 0 0]"

section \<open>Double-precision arithmetic: sample values\<close>

text \<open>
  The rounding on literals whose doubles are known, on two ties at 54 bits (to the even
  neighbour), and on the products and the difference the examples below rest on.
\<close>

lemma round64_samples:
  "round64 0 = 0"
  "round64 1.5 = 1.5"
  "round64 1.15 = 2589569785738035 / 2251799813685248"
  "round64 0.6 = 5404319552844595 / 9007199254740992"
  "round64 (- 0.1) = - (3602879701896397 / 36028797018963968)"
  "round64 (2 ^ 53 + 1) = 2 ^ 53"
  "round64 (2 ^ 53 + 3) = 2 ^ 53 + 4"
  "dblMul 100 (round64 1.15) = 8092405580431359 / 70368744177664"
  "dblMul 20 (round64 1.15) = 23"
  "dblSub (round64 1.2) (round64 0.6) = round64 0.6"
  "dblSub 5 (round64 0.6) = round64 4.4"
  "dblMul (round64 4.4) 100 = 440 + 1 / 2 ^ 44"
  by code_simp+

section \<open>Order-flow heuristic: zero open interest\<close>

text \<open>
  C10. For an option whose contract has open interest 0, the order-flow heuristic returns
  ratio 0, no unusual volume and the neutral signal, whatever the volume is: the quotient
  volume / open interest is taken only under the guard that open interest is positive.
\<close>

theorem analyzeOrderFlow_zero_openInterest:
  assumes "openInterest (contract opt) = 0"
  shows "analyzeOrderFlow opt =
           \<lparr> hasUnusualVolume = False, volumeOIRatio = 0, signal = NEUTRAL \<rparr>"
  using assms by (simp add: analyzeOrderFlow_def)

theorem analyzeOrderFlow_zero_openInterest_witness:
  "openInterest (contract \<lparr> atm_symbol = ''SPY'', optionType = CALL,
       contract = sampleContract CALL 650 1 1 500 0, distanceFromATM = 0, isATM = True \<rparr>) = 0
   \<and> analyzeOrderFlow \<lparr> atm_symbol = ''SPY'', optionType = CALL,
       contract = sampleContract CALL 650 1 1 500 0, distanceFromATM = 0, isATM = True \<rparr>
     = \<lparr> hasUnusualVolume = False, volumeOIRatio = 0, signal = NEUTRAL \<rparr>"
  using analyzeOrderFlow_zero_openInterest
          [of "\<lparr> atm_symbol = ''SPY'', optionType = CALL,
                 contract = sampleContract CALL 650 1 1 500 0,
                 distanceFromATM = 0, isATM = True \<rparr>"]
  by (simp add: sampleContract_def)

section \<open>Anomaly detector: when an event is recorded\<close>

text \<open>
  C2, as the claim states it, fails. The code compares the volume with the double-precision
  product: with the threshold 1.15, volume 23 and open interest 20, both are positive and the
  volume exceeds open interest \<times> threshold (the double of 1.15 is below 1.15), but the product
  rounds to 23 and no event is recorded. The code's guard is on zero, not on the sign: with
  volume \<minus>100 and open interest \<minus>200 an event is recorded although the volume is not
  positive.
\<close>

theorem checkNakedPosition_exact_product_counterexample:
  "checkNakedPosition (round64 1.15) ''SPY'' (sampleContract CALL 650 1 1 23 20) 650 = None
   \<and> (0 :: number) < 23 \<and> (0 :: number) < 20
   \<and> 20 * round64 1.15 < 23
   \<and> dblMul 20 (round64 1.15) = 23
   \<and> checkNakedPosition DEFAULT_NAKED_THRESHOLD ''SPY''
         (sampleContract CALL 650 1 1 (- 100) (- 200)) 650 \<noteq> None
   \<and> (- 100 :: number) < 0"
  by code_simp

text \<open>
  C2, amended. The anomaly detector records a naked-position event if and only if volume and
  open interest are not 0 and volume > open interest \<times> threshold, the product being the
  double-precision one the code computes; for a contract whose volume and open interest are
  not negative that is: if and only if volume > 0, open interest > 0 and volume > that
  product; and where the double-precision product is the exact one (as for the default
  threshold 1.5 on the counts 100, 200, ...), it is the exact product. No event is recorded
  when open interest or volume is 0, and a recorded event carries the double-precision ratio
  volume / open interest and the threshold in effect.
\<close>

theorem checkNakedPosition_rounded_iff:
  "(checkNakedPosition thr t c u \<noteq> None \<longleftrightarrow>
      totalVolume c \<noteq> 0 \<and> openInterest c \<noteq> 0
      \<and> totalVolume c > dblMul (openInterest c) thr)
   \<and> (0 \<le> totalVolume c \<and> 0 \<le> openInterest c \<longrightarrow>
        (checkNakedPosition thr t c u \<noteq> None \<longleftrightarrow>
           totalVolume c > 0 \<and> openInterest c > 0
           \<and> totalVolume c > dblMul (openInterest c) thr))
   \<and> (0 \<le> totalVolume c \<and> 0 \<le> openInterest c
        \<and> dblMul (openInterest c) thr = openInterest c * thr \<longrightarrow>
        (checkNakedPosition thr t c u \<noteq> None \<longleftrightarrow>
           totalVolume c > 0 \<and> openInterest c > 0
           \<and> totalVolume c > openInterest c * thr))
   \<and> (openInterest c = 0 \<or> totalVolume c = 0 \<longrightarrow> checkNakedPosition thr t c u = None)
   \<and> (\<forall>e. checkNakedPosition thr t c u = Some e \<longrightarrow>
          np_volumeOiRatio e = dblDiv (totalVolume c) (openInterest c)
          \<and> np_thresholdMultiplier e = thr
          \<and> np_volume e = totalVolume c \<and> np_openInterest e = openInterest c)"
  by (auto simp: checkNakedPosition_def Let_def)

theorem checkNakedPosition_rounded_iff_witness:
  "0 \<le> totalVolume (sampleContract CALL 650 1 1 200 100)
   \<and> 0 \<le> openInterest (sampleContract CALL 650 1 1 200 100)
   \<and> dblMul (openInterest (sampleContract CALL 650 1 1 200 100)) DEFAULT_NAKED_THRESHOLD
       = openInterest (sampleContract CALL 650 1 1 200 100) * DEFAULT_NAKED_THRESHOLD
   \<and> map_option (\<lambda>e. (np_volume e, np_openInterest e, np_volumeOiRatio e,
                          np_thresholdMultiplier e))
         (checkNakedPosition DEFAULT_NAKED_THRESHOLD ''SPY''
            (sampleContract CALL 650 1 1 200 100) 650)
       = Some (200, 100, 2, 1.5)
   \<and> checkNakedPosition DEFAULT_NAKED_THRESHOLD ''SPY'' (sampleContract CALL 650 1 1 140 100) 650
       = None
   \<and> totalVolume (sampleContract CALL 650 1 1 0 100) = 0
   \<and> checkNakedPosition DEFAULT_NAKED_THRESHOLD ''SPY'' (sampleContract CALL 650 1 1 0 100) 650
       = None
   \<and> checkNakedPosition (round64 1.15) ''SPY'' (sampleContract CALL 650 1 1 115 100) 650
       \<noteq> None"
proof -
  note defs = sampleContract_def DEFAULT_NAKED_THRESHOLD_def
  have exact: "dblMul 100 (3 / 2) = 150" by code_simp
  have ratio: "dblDiv 200 100 = 2" by code_simp
  have product: "dblMul 100 (round64 1.15) < 115" by code_simp
  have emitted: "checkNakedPosition DEFAULT_NAKED_THRESHOLD ''SPY''
                   (sampleContract CALL 650 1 1 200 100) 650 \<noteq> None"
    using checkNakedPosition_rounded_iff
            [of DEFAULT_NAKED_THRESHOLD "''SPY''" "sampleContract CALL 650 1 1 200 100" 650]
    by (simp add: defs exact)
  then obtain e where e: "checkNakedPosition DEFAULT_NAKED_THRESHOLD ''SPY''
                            (sampleContract CALL 650 1 1 200 100) 650 = Some e"
    by blast
  with checkNakedPosition_rounded_iff
         [of DEFAULT_NAKED_THRESHOLD "''SPY''" "sampleContract CALL 650 1 1 200 100" 650]
  have "np_volumeOiRatio e = 2" and "np_thresholdMultiplier e = 1.5"
    and "np_volume e = 200" and "np_openInterest e = 100"
    by (simp_all add: defs ratio)
  with e have first: "map_option (\<lambda>e. (np_volume e, np_openInterest e, np_volumeOiRatio e,
                          np_thresholdMultiplier e))
         (checkNakedPosition DEFAULT_NAKED_THRESHOLD ''SPY''
            (sampleContract CALL 650 1 1 200 100) 650)
       = Some (200, 100, 2, 1.5)"
    by simp
  have second: "checkNakedPosition DEFAULT_NAKED_THRESHOLD ''SPY''
                  (sampleContract CALL 650 1 1 140 100) 650 = None"
    using checkNakedPosition_rounded_iff
            [of DEFAULT_NAKED_THRESHOLD "''SPY''" "sampleContract CALL 650 1 1 140 100" 650]
    by (simp add: defs exact)
  have third: "checkNakedPosition DEFAULT_NAKED_THRESHOLD ''SPY''
                 (sampleContract CALL 650 1 1 0 100) 650 = None"
    using checkNakedPosition_rounded_iff
            [of DEFAULT_NAKED_THRESHOLD "''SPY''" "sampleContract CALL 650 1 1 0 100" 650]
    by (simp add: defs)
  have fourth: "checkNakedPosition (round64 1.15) ''SPY''
                  (sampleContract CALL 650 1 1 115 100) 650 \<noteq> None"
    using checkNakedPosition_rounded_iff
            [of "round64 1.15" "''SPY''" "sampleContract CALL 650 1 1 115 100" 650] product
    by (simp add: defs)
  from first second third fourth exact show ?thesis
    by (simp add: defs)
qed

section \<open>Collector lifecycle: invariant and idempotence\<close>

text \<open>
  C9. The collector keeps the invariant that it is running exactly when it holds a timer
  handle: a new collector satisfies it and start and stop preserve it. Start on a running
  collector changes nothing, so a second start in a row changes nothing and a new collector
  started twice has one active timer; stop on a stopped collector changes nothing (stop has no
  failing branch).
\<close>

theorem collector_lifecycle:
  "collectorInv newDataCollector
   \<and> (collectorInv this \<longrightarrow>
        collectorInv (fst (start (this, rt))) \<and> collectorInv (fst (stop (this, rt))))
   \<and> (isRunning running \<longrightarrow> start (running, rt) = (running, rt))
   \<and> start (start (this, rt)) = start (this, rt)
   \<and> (\<not> isRunning stopped \<longrightarrow> stop (stopped, rt) = (stopped, rt))
   \<and> stop (stop (this, rt)) = stop (this, rt)
   \<and> (activeTimers rt = [] \<longrightarrow>
        length (activeTimers (snd (start (start (newDataCollector, rt))))) = 1)"
  by (auto simp: collectorInv_def newDataCollector_def start_def stop_def setInterval_def
        collectData_def clearInterval_def split: option.splits prod.splits)

theorem collector_lifecycle_witness:
  "collectorInv newDataCollector
   \<and> isRunning \<lparr> intervalId = Some 0, isRunning = True \<rparr>
   \<and> \<not> isRunning newDataCollector
   \<and> activeTimers \<lparr> activeTimers = [], nextHandle = 0, cyclesLaunched = 0 \<rparr> = []
   \<and> collectorInv (fst (start (newDataCollector,
         \<lparr> activeTimers = [], nextHandle = 0, cyclesLaunched = 0 \<rparr>)))
   \<and> start (\<lparr> intervalId = Some 0, isRunning = True \<rparr>,
         \<lparr> activeTimers = [], nextHandle = 0, cyclesLaunched = 0 \<rparr>)
       = (\<lparr> intervalId = Some 0, isRunning = True \<rparr>,
         \<lparr> activeTimers = [], nextHandle = 0, cyclesLaunched = 0 \<rparr>)
   \<and> stop (newDataCollector, \<lparr> activeTimers = [], nextHandle = 0, cyclesLaunched = 0 \<rparr>)
       = (newDataCollector, \<lparr> activeTimers = [], nextHandle = 0, cyclesLaunched = 0 \<rparr>)
   \<and> length (activeTimers (snd (start (start (newDataCollector,
         \<lparr> activeTimers = [], nextHandle = 0, cyclesLaunched = 0 \<rparr>))))) = 1"
  using collector_lifecycle
          [of newDataCollector "\<lparr> activeTimers = [], nextHandle = 0, cyclesLaunched = 0 \<rparr>"
              "\<lparr> intervalId = Some 0, isRunning = True \<rparr>" newDataCollector]
  by (simp add: collectorInv_def newDataCollector_def start_def stop_def setInterval_def
        collectData_def)

section \<open>Credit spreads: what the loops return\<close>

lemma spreadOfPair_Some:
  assumes "spreadOfPair ty opt1 opt2 = Some s"
  shows "spreadType s = ty"
    and "shortOption s = (if ty = CALL then opt1 else opt2)"
    and "longOption s = (if ty = CALL then opt2 else opt1)"
    and "shortStrike s = strikePrice (shortOption s)"
    and "longStrike s = strikePrice (longOption s)"
    and "width s = \<bar>shortStrike s - longStrike s\<bar>"
    and "MIN_WIDTH \<le> width s" and "width s \<le> MAX_WIDTH"
    and "creditReceived s = bid (shortOption s) - ask (longOption s)"
    and "MIN_CREDIT \<le> creditReceived s"
    and "maxProfit s = creditReceived s * 100"
    and "maxLoss s = (width s - creditReceived s) * 100"
    and "breakEven s = (if ty = CALL then shortStrike s + creditReceived s
                        else shortStrike s - creditReceived s)"
    and "riskRewardRatio s = (if maxLoss s > 0 then maxProfit s / maxLoss s else 0)"
  using assms by (auto simp: spreadOfPair_def Let_def split: if_splits)

lemma innerLoop_set:
  "s \<in> set (innerLoop ty opt1 rest spreads) \<longleftrightarrow>
     s \<in> set spreads \<or> (\<exists>opt2 \<in> set rest. spreadOfPair ty opt1 opt2 = Some s)"
  by (induction rest arbitrary: spreads) (auto split: option.splits)

lemma outerLoop_set:
  assumes "sorted (map strikePrice xs)" and "s \<in> set (outerLoop ty xs spreads)"
  shows "s \<in> set spreads \<or>
         (\<exists>opt1 opt2. strikePrice opt1 \<le> strikePrice opt2 \<and> spreadOfPair ty opt1 opt2 = Some s)"
  using assms
proof (induction xs arbitrary: spreads)
  case Nil
  then show ?case by simp
next
  case (Cons x xs)
  from Cons.prems have srt: "sorted (map strikePrice xs)"
    and le: "\<forall>y \<in> set xs. strikePrice x \<le> strikePrice y" by auto
  from Cons.prems have "s \<in> set (outerLoop ty xs (innerLoop ty x xs spreads))" by simp
  from Cons.IH [OF srt this] show ?case
    using le by (auto simp: innerLoop_set)
qed

text \<open>
  Every spread returned is the spread of a pair taken from the options of the requested side
  in ascending strike order.
\<close>

lemma calculateCreditSpreads_pair:
  assumes "s \<in> set (calculateCreditSpreads options ty underlying)"
  shows "\<exists>opt1 opt2. strikePrice opt1 \<le> strikePrice opt2 \<and> spreadOfPair ty opt1 opt2 = Some s"
proof -
  let ?filtered = "sort_key strikePrice (filter (\<lambda>opt. putCall opt = ty) options)"
  have "sorted (map strikePrice ?filtered)"
    by (rule sorted_sort_key)
  moreover have "s \<in> set (outerLoop ty ?filtered [])"
    using assms by (simp add: calculateCreditSpreads_def)
  ultimately show ?thesis using outerLoop_set by fastforce
qed

lemmas spread_consts = MIN_WIDTH_def MAX_WIDTH_def MIN_CREDIT_def

section \<open>Credit spreads: width and credit bounds\<close>



section \<open>Credit spreads: economics\<close>

lemma spreadOfPair64_Some:
  assumes "spreadOfPair64 ty opt1 opt2 = Some s"
  shows "spreadType s = ty"
    and "shortStrike s = strikePrice (shortOption s)"
    and "longStrike s = strikePrice (longOption s)"
    and "width s = \<bar>dblSub (shortStrike s) (longStrike s)\<bar>"
    and "creditReceived s = dblSub (bid (shortOption s)) (ask (longOption s))"
    and "maxProfit s = dblMul (creditReceived s) 100"
    and "maxLoss s = dblMul (dblSub (width s) (creditReceived s)) 100"
    and "breakEven s = (if ty = CALL then dblAdd (shortStrike s) (creditReceived s)
                        else dblSub (shortStrike s) (creditReceived s))"
    and "riskRewardRatio s = (if maxLoss s > 0 then dblDiv (maxProfit s) (maxLoss s) else 0)"
  using assms by (auto simp: spreadOfPair64_def Let_def split: if_splits)

lemma innerLoop64_set:
  "s \<in> set (innerLoop64 ty opt1 rest spreads) \<longleftrightarrow>
     s \<in> set spreads \<or> (\<exists>opt2 \<in> set rest. spreadOfPair64 ty opt1 opt2 = Some s)"
  by (induction rest arbitrary: spreads) (auto split: option.splits)

lemma outerLoop64_set:
  assumes "s \<in> set (outerLoop64 ty xs spreads)"
  shows "s \<in> set spreads \<or> (\<exists>opt1 opt2. spreadOfPair64 ty opt1 opt2 = Some s)"
  using assms
proof (induction xs arbitrary: spreads)
  case Nil
  then show ?case by simp
next
  case (Cons x xs)
  from Cons.prems have "s \<in> set (outerLoop64 ty xs (innerLoop64 ty x xs spreads))" by simp
  from Cons.IH [OF this] show ?case
    by (auto simp: innerLoop64_set)
qed

lemma calculateCreditSpreads64_pair:
  assumes "s \<in> set (calculateCreditSpreads64 options ty underlying)"
  shows "\<exists>opt1 opt2. spreadOfPair64 ty opt1 opt2 = Some s"
  using assms outerLoop64_set [of s ty _ "[]"]
  by (simp add: calculateCreditSpreads64_def)

text \<open>
  C4, as the claim states it, fails at its own example: for the CALL spread short 650
  (bid 1.20) / long 655 (ask 0.60) the code computes (5 \<minus> 0.6) \<times> 100 in double precision,
  and the maximum loss it returns is 440 + 2^-44 (printed 440.00000000000006), not 440.
\<close>

theorem calculateCreditSpreads_maxLoss_counterexample:
  "map maxLoss (calculateCreditSpreads64 scenarioSpreadCalls CALL 650) = [440 + 1 / 2 ^ 44]
   \<and> (440 :: number) < 440 + 1 / 2 ^ 44"
  by code_simp

text \<open>
  C4, amended. For every spread returned by the enumeration, with every operation the
  double-precision one the code performs: credit = short bid \<minus> long ask, maximum profit =
  credit \<times> 100, maximum loss = (width \<minus> credit) \<times> 100, break-even = short strike + credit
  for CALL spreads and short strike \<minus> credit for PUT spreads, and the risk/reward ratio is
  maximum profit / maximum loss when the maximum loss is positive and 0 otherwise. The CALL
  spread short 650 (bid 1.20) / long 655 (ask 0.60) has credit 0.60 (the double of that
  literal), width 5, maximum profit 60, maximum loss 440 + 2^-44 (printed
  440.00000000000006) and break-even 650.60 (the double of that literal).
\<close>

theorem calculateCreditSpreads64_economics:
  "(\<forall>s \<in> set (calculateCreditSpreads64 options ty underlying).
      spreadType s = ty
      \<and> shortStrike s = strikePrice (shortOption s)
      \<and> creditReceived s = dblSub (bid (shortOption s)) (ask (longOption s))
      \<and> maxProfit s = dblMul (creditReceived s) 100
      \<and> maxLoss s = dblMul (dblSub (width s) (creditReceived s)) 100
      \<and> breakEven s = (if spreadType s = CALL then dblAdd (shortStrike s) (creditReceived s)
                        else dblSub (shortStrike s) (creditReceived s))
      \<and> riskRewardRatio s
          = (if maxLoss s > 0 then dblDiv (maxProfit s) (maxLoss s) else 0))
   \<and> map (\<lambda>s. (shortStrike s, bid (shortOption s), longStrike s, ask (longOption s),
                creditReceived s, width s, maxProfit s, maxLoss s, breakEven s))
       (calculateCreditSpreads64
          [sampleContract CALL 650 (round64 1.20) (round64 1.30) 0 0,
           sampleContract CALL 655 (round64 0.50) (round64 0.60) 0 0]
          CALL 650)
       = [(650, round64 1.20, 655, round64 0.60,
           round64 0.60, 5, 60, 440 + 1 / 2 ^ 44, round64 650.60)]"
proof (intro conjI ballI)
  fix s
  assume "s \<in> set (calculateCreditSpreads64 options ty underlying)"
  then obtain opt1 opt2 where p: "spreadOfPair64 ty opt1 opt2 = Some s"
    using calculateCreditSpreads64_pair by blast
  note f = spreadOfPair64_Some [OF p]
  show "spreadType s = ty" by (rule f(1))
  show "shortStrike s = strikePrice (shortOption s)" by (rule f(2))
  show "creditReceived s = dblSub (bid (shortOption s)) (ask (longOption s))" by (rule f(5))
  show "maxProfit s = dblMul (creditReceived s) 100" by (rule f(6))
  show "maxLoss s = dblMul (dblSub (width s) (creditReceived s)) 100" by (rule f(7))
  show "breakEven s = (if spreadType s = CALL then dblAdd (shortStrike s) (creditReceived s)
                       else dblSub (shortStrike s) (creditReceived s))"
    using f(8) f(1) by simp
  show "riskRewardRatio s = (if maxLoss s > 0 then dblDiv (maxProfit s) (maxLoss s) else 0)"
    by (rule f(9))
next
  show "map (\<lambda>s. (shortStrike s, bid (shortOption s), longStrike s, ask (longOption s),
                creditReceived s, width s, maxProfit s, maxLoss s, breakEven s))
       (calculateCreditSpreads64
          [sampleContract CALL 650 (round64 1.20) (round64 1.30) 0 0,
           sampleContract CALL 655 (round64 0.50) (round64 0.60) 0 0]
          CALL 650)
       = [(650, round64 1.20, 655, round64 0.60,
           round64 0.60, 5, 60, 440 + 1 / 2 ^ 44, round64 650.60)]"
    by code_simp
qed

theorem calculateCreditSpreads64_economics_witness:
  "hd (calculateCreditSpreads64 putPair64 PUT 650)
     \<in> set (calculateCreditSpreads64 putPair64 PUT 650)
   \<and> map (\<lambda>s. (spreadType s, shortStrike s, longStrike s, creditReceived s, maxProfit s,
                maxLoss s, breakEven s))
         (calculateCreditSpreads64 putPair64 PUT 650)
       = [(PUT, 645, 640, round64 0.80, 80, 420, round64 644.20)]
   \<and> maxProfit (hd (calculateCreditSpreads64 putPair64 PUT 650))
       = dblMul (creditReceived (hd (calculateCreditSpreads64 putPair64 PUT 650))) 100"
proof -
  let ?r = "calculateCreditSpreads64 putPair64 PUT 650"
  have m: "map (\<lambda>s. (spreadType s, shortStrike s, longStrike s, creditReceived s, maxProfit s,
                maxLoss s, breakEven s)) ?r
             = [(PUT, 645, 640, round64 0.80, 80, 420, round64 644.20)]"
    by code_simp
  then have "?r \<noteq> []" by auto
  then have "hd ?r \<in> set ?r" by (rule hd_in_set)
  with m calculateCreditSpreads64_economics [of putPair64 PUT 650]
  show ?thesis by blast
qed

section \<open>Credit spreads: order of the result\<close>

text \<open>
  C6. The list returned by the enumeration is sorted non-increasing by risk/reward ratio:
  of two adjacent elements the earlier one has a ratio greater than or equal to the later
  one's.
\<close>

theorem calculateCreditSpreads_sorted:
  "\<forall>i. Suc i < length (calculateCreditSpreads options ty underlying) \<longrightarrow>
       riskRewardRatio (calculateCreditSpreads options ty underlying ! Suc i)
         \<le> riskRewardRatio (calculateCreditSpreads options ty underlying ! i)"
proof (intro allI impI)
  fix i
  let ?r = "calculateCreditSpreads options ty underlying"
  assume i: "Suc i < length ?r"
  have "sorted (map (\<lambda>s. - riskRewardRatio s) ?r)"
    by (simp add: calculateCreditSpreads_def sorted_sort_key)
  then have "map (\<lambda>s. - riskRewardRatio s) ?r ! i \<le> map (\<lambda>s. - riskRewardRatio s) ?r ! Suc i"
    using i by (intro sorted_nth_mono) simp_all
  with i show "riskRewardRatio (?r ! Suc i) \<le> riskRewardRatio (?r ! i)" by simp
qed

theorem calculateCreditSpreads_sorted_witness:
  "Suc 0 < length (calculateCreditSpreads rankedCalls CALL 650)
   \<and> map (\<lambda>s. (shortStrike s, longStrike s, riskRewardRatio s))
         (calculateCreditSpreads rankedCalls CALL 650)
       = [(655, 660, 2 / 3), (650, 660, 1 / 3), (650, 655, 1 / 9)]
   \<and> riskRewardRatio (calculateCreditSpreads rankedCalls CALL 650 ! Suc 0)
       \<le> riskRewardRatio (calculateCreditSpreads rankedCalls CALL 650 ! 0)"
proof -
  let ?r = "calculateCreditSpreads rankedCalls CALL 650"
  have m: "map (\<lambda>s. (shortStrike s, longStrike s, riskRewardRatio s)) ?r
             = [(655, 660, 2 / 3), (650, 660, 1 / 3), (650, 655, 1 / 9)]"
    by code_simp
  have "length (map (\<lambda>s. (shortStrike s, longStrike s, riskRewardRatio s)) ?r) = 3"
    by (simp only: m) simp
  then have l: "Suc 0 < length ?r" by simp
  with m calculateCreditSpreads_sorted [of rankedCalls CALL 650]
  show ?thesis by blast
qed

section \<open>Credit spreads: which leg is short\<close>

text \<open>
  C7. In every spread returned by the enumeration the short and the long strike differ: for a
  CALL spread the short strike is strictly below the long strike, for a PUT spread strictly
  above it.
\<close>

theorem calculateCreditSpreads_strike_order:
  "\<forall>s \<in> set (calculateCreditSpreads options ty underlying).
     spreadType s = ty
     \<and> shortStrike s = strikePrice (shortOption s)
     \<and> longStrike s = strikePrice (longOption s)
     \<and> shortStrike s \<noteq> longStrike s
     \<and> (spreadType s = CALL \<longrightarrow> shortStrike s < longStrike s)
     \<and> (spreadType s = PUT \<longrightarrow> shortStrike s > longStrike s)"
proof
  fix s
  assume "s \<in> set (calculateCreditSpreads options ty underlying)"
  then obtain opt1 opt2 where le: "strikePrice opt1 \<le> strikePrice opt2"
    and p: "spreadOfPair ty opt1 opt2 = Some s"
    using calculateCreditSpreads_pair by blast
  note f = spreadOfPair_Some [OF p]
  have w: "5 \<le> \<bar>shortStrike s - longStrike s\<bar>"
    using f(6) f(7) by (simp add: spread_consts)
  have call: "shortStrike s < longStrike s" if "ty = CALL"
    using that le w f(2-5) by simp
  have put: "shortStrike s > longStrike s" if "ty = PUT"
    using that le w f(2-5) by simp
  show "spreadType s = ty
     \<and> shortStrike s = strikePrice (shortOption s)
     \<and> longStrike s = strikePrice (longOption s)
     \<and> shortStrike s \<noteq> longStrike s
     \<and> (spreadType s = CALL \<longrightarrow> shortStrike s < longStrike s)
     \<and> (spreadType s = PUT \<longrightarrow> shortStrike s > longStrike s)"
    using f(1) f(4) f(5) call put w by auto
qed

theorem calculateCreditSpreads_strike_order_witness:
  "hd (calculateCreditSpreads callPairDescending CALL 650)
     \<in> set (calculateCreditSpreads callPairDescending CALL 650)
   \<and> map (\<lambda>s. (spreadType s, shortStrike s, longStrike s))
         (calculateCreditSpreads callPairDescending CALL 650)
       = [(CALL, 650, 655)]
   \<and> hd (calculateCreditSpreads putPair PUT 650) \<in> set (calculateCreditSpreads putPair PUT 650)
   \<and> map (\<lambda>s. (spreadType s, shortStrike s, longStrike s))
         (calculateCreditSpreads putPair PUT 650)
       = [(PUT, 645, 640)]
   \<and> shortStrike (hd (calculateCreditSpreads callPairDescending CALL 650))
       < longStrike (hd (calculateCreditSpreads callPairDescending CALL 650))
   \<and> longStrike (hd (calculateCreditSpreads putPair PUT 650))
       < shortStrike (hd (calculateCreditSpreads putPair PUT 650))"
proof -
  let ?c = "calculateCreditSpreads callPairDescending CALL 650"
  let ?p = "calculateCreditSpreads putPair PUT 650"
  have mc: "map (\<lambda>s. (spreadType s, shortStrike s, longStrike s)) ?c = [(CALL, 650, 655)]"
    by code_simp
  have mp: "map (\<lambda>s. (spreadType s, shortStrike s, longStrike s)) ?p = [(PUT, 645, 640)]"
    by code_simp
  from mc have "?c \<noteq> []" by auto
  then have hc: "hd ?c \<in> set ?c" by (rule hd_in_set)
  from mp have "?p \<noteq> []" by auto
  then have hp: "hd ?p \<in> set ?p" by (rule hd_in_set)
  note call = calculateCreditSpreads_strike_order [of callPairDescending CALL 650]
  note put = calculateCreditSpreads_strike_order [of putPair PUT 650]
  have tc: "spreadType (hd ?c) = CALL" using hc call by blast
  have tp: "spreadType (hd ?p) = PUT" using hp put by blast
  have "shortStrike (hd ?c) < longStrike (hd ?c)" using hc tc call by blast
  moreover have "longStrike (hd ?p) < shortStrike (hd ?p)" using hp tp put by blast
  ultimately show ?thesis using mc mp hc hp by blast
qed

section \<open>ATM selection\<close>

lemma findNearestStrikes_length: "length (findNearestStrikes ticker underlying options ty) \<le> 3"
  by (simp add: findNearestStrikes_def)

lemma findNearestStrikes_member:
  assumes "opt \<in> set (findNearestStrikes ticker underlying options ty)"
  shows "underlying \<noteq> 0
       \<and> \<bar>strikePrice (contract opt) - underlying\<bar> / underlying \<le> 0.02
       \<and> distanceFromATM opt = \<bar>strikePrice (contract opt) - underlying\<bar>
       \<and> optionType opt = ty \<and> putCall (contract opt) = ty \<and> contract opt \<in> set options"
proof -
  from assms have "opt \<in> set (sort_key distanceFromATM
          (filter isATM
             (map (toATMOption ticker ty underlying)
                (filter (\<lambda>opt. putCall opt = ty) options))))"
    unfolding findNearestStrikes_def by (rule in_set_takeD)
  then obtain c where c: "c \<in> set options" "putCall c = ty"
    and opt: "opt = toATMOption ticker ty underlying c" and atm: "isATM opt"
    by auto
  from atm opt have "underlying \<noteq> 0 \<and> \<bar>strikePrice c - underlying\<bar> / underlying \<le> 0.02"
    by (auto simp: toATMOption_def jsDivide_def ATM_THRESHOLD_def Let_def split: if_splits)
  with c opt show ?thesis
    by (simp add: toATMOption_def Let_def)
qed

lemma findNearestStrikes_sorted:
  "sorted (map distanceFromATM (findNearestStrikes ticker underlying options ty))"
  unfolding findNearestStrikes_def take_map [symmetric]
  by (intro sorted_wrt_take) (rule sorted_sort_key)

text \<open>
  C8. For every chain and spot price the ATM selection returns at most 3 contracts per side,
  every returned contract satisfies |strike \<minus> spot| / spot \<le> 0.02, and each side's list is
  sorted ascending by the absolute distance |strike \<minus> spot|.
\<close>

theorem findATMOptions_nearest_three:
  "length (atmCalls (findATMOptions ticker calls puts underlying)) \<le> 3
   \<and> length (atmPuts (findATMOptions ticker calls puts underlying)) \<le> 3
   \<and> (\<forall>opt \<in> set (atmCalls (findATMOptions ticker calls puts underlying))
              \<union> set (atmPuts (findATMOptions ticker calls puts underlying)).
          underlying \<noteq> 0
          \<and> \<bar>strikePrice (contract opt) - underlying\<bar> / underlying \<le> 0.02
          \<and> distanceFromATM opt = \<bar>strikePrice (contract opt) - underlying\<bar>)
   \<and> sorted (map (\<lambda>opt. \<bar>strikePrice (contract opt) - underlying\<bar>)
               (atmCalls (findATMOptions ticker calls puts underlying)))
   \<and> sorted (map (\<lambda>opt. \<bar>strikePrice (contract opt) - underlying\<bar>)
               (atmPuts (findATMOptions ticker calls puts underlying)))"
proof -
  have d: "map (\<lambda>opt. \<bar>strikePrice (contract opt) - underlying\<bar>)
             (findNearestStrikes ticker underlying options ty)
           = map distanceFromATM (findNearestStrikes ticker underlying options ty)"
    for options ty
    using findNearestStrikes_member by (intro map_cong) simp_all
  show ?thesis
    unfolding findATMOptions_def
    using findNearestStrikes_member [of _ ticker underlying calls CALL]
      findNearestStrikes_member [of _ ticker underlying puts PUT]
    by (auto simp: d findNearestStrikes_length findNearestStrikes_sorted)
qed

theorem findATMOptions_nearest_three_witness:
  "map (\<lambda>opt. (strikePrice (contract opt), distanceFromATM opt))
     (atmCalls (findATMOptions ''SPY'' nearCalls nearPuts 650))
     = [(650, 0), (651, 1), (648, 2)]
   \<and> map (\<lambda>opt. (strikePrice (contract opt), distanceFromATM opt))
     (atmPuts (findATMOptions ''SPY'' nearCalls nearPuts 650))
     = [(663, 13)]
   \<and> hd (atmPuts (findATMOptions ''SPY'' nearCalls nearPuts 650))
      \<in> set (atmCalls (findATMOptions ''SPY'' nearCalls nearPuts 650))
        \<union> set (atmPuts (findATMOptions ''SPY'' nearCalls nearPuts 650))
   \<and> \<bar>strikePrice (contract (hd (atmPuts (findATMOptions ''SPY'' nearCalls nearPuts 650))))
        - 650\<bar> / 650 \<le> 0.02"
proof -
  let ?r = "findATMOptions ''SPY'' nearCalls nearPuts 650"
  have mc: "map (\<lambda>opt. (strikePrice (contract opt), distanceFromATM opt)) (atmCalls ?r)
              = [(650, 0), (651, 1), (648, 2)]"
    by code_simp
  have mp: "map (\<lambda>opt. (strikePrice (contract opt), distanceFromATM opt)) (atmPuts ?r)
              = [(663, 13)]"
    by code_simp
  from mp have "atmPuts ?r \<noteq> []" by auto
  then have "hd (atmPuts ?r) \<in> set (atmCalls ?r) \<union> set (atmPuts ?r)" by simp
  with mc mp findATMOptions_nearest_three [of "''SPY''" nearCalls nearPuts 650]
  show ?thesis by blast
qed

section \<open>Max pain: the strike map\<close>

lemma firstOccurrences_snoc:
  "firstOccurrences (xs @ [x]) =
     (if x \<in> set xs then firstOccurrences xs else firstOccurrences xs @ [x])"
  by (simp add: firstOccurrences_def)

lemma set_firstOccurrences: "set (firstOccurrences xs) = set xs"
  by (simp add: firstOccurrences_def)

lemma distinct_firstOccurrences: "distinct (firstOccurrences xs)"
  by (simp add: firstOccurrences_def)

lemma keys_mapSet:
  "map fst (mapSet k v m) = (if k \<in> set (map fst m) then map fst m else map fst m @ [k])"
  by (induction m) force+

lemma mapGetOrZero_mapSet:
  "mapGetOrZero (mapSet k v m) K = (if K = k then v else mapGetOrZero m K)"
  by (induction m) (auto simp: mapGetOrZero_def)

lemma keys_aggregateCalls:
  "map fst m = firstOccurrences pre \<Longrightarrow>
   map fst (aggregateCalls cs m) = firstOccurrences (pre @ map strikePrice cs)"
proof (induction cs arbitrary: m pre)
  case Nil
  then show ?case by simp
next
  case (Cons c cs)
  let ?m = "mapSet (strikePrice c)
              ((mapGetOrZero m (strikePrice c))
                 \<lparr>callOI := callOI (mapGetOrZero m (strikePrice c)) + openInterest c\<rparr>) m"
  have "map fst ?m = firstOccurrences (pre @ [strikePrice c])"
    using Cons.prems set_firstOccurrences [of pre]
    by (simp add: keys_mapSet firstOccurrences_snoc)
  from Cons.IH [OF this] show ?case by (simp add: Let_def)
qed

lemma keys_aggregatePuts:
  "map fst m = firstOccurrences pre \<Longrightarrow>
   map fst (aggregatePuts ps m) = firstOccurrences (pre @ map strikePrice ps)"
proof (induction ps arbitrary: m pre)
  case Nil
  then show ?case by simp
next
  case (Cons p ps)
  let ?m = "mapSet (strikePrice p)
              ((mapGetOrZero m (strikePrice p))
                 \<lparr>putOI := putOI (mapGetOrZero m (strikePrice p)) + openInterest p\<rparr>) m"
  have "map fst ?m = firstOccurrences (pre @ [strikePrice p])"
    using Cons.prems set_firstOccurrences [of pre]
    by (simp add: keys_mapSet firstOccurrences_snoc)
  from Cons.IH [OF this] show ?case by (simp add: Let_def)
qed

lemma spec_oi_Cons:
  "specOpenInterest (c # cs) K =
     (if strikePrice c = K then openInterest c else 0) + specOpenInterest cs K"
  by (simp add: specOpenInterest_def)

lemma values_aggregateCalls:
  "callOI (mapGetOrZero (aggregateCalls cs m) K)
     = callOI (mapGetOrZero m K) + specOpenInterest cs K
   \<and> putOI (mapGetOrZero (aggregateCalls cs m) K) = putOI (mapGetOrZero m K)"
proof (induction cs arbitrary: m)
  case Nil
  then show ?case by (simp add: specOpenInterest_def)
next
  case (Cons c cs)
  show ?case
    by (simp add: Let_def Cons.IH mapGetOrZero_mapSet spec_oi_Cons)
qed

lemma values_aggregatePuts:
  "putOI (mapGetOrZero (aggregatePuts ps m) K)
     = putOI (mapGetOrZero m K) + specOpenInterest ps K
   \<and> callOI (mapGetOrZero (aggregatePuts ps m) K) = callOI (mapGetOrZero m K)"
proof (induction ps arbitrary: m)
  case Nil
  then show ?case by (simp add: specOpenInterest_def)
next
  case (Cons p ps)
  show ?case
    by (simp add: Let_def Cons.IH mapGetOrZero_mapSet spec_oi_Cons)
qed

text \<open>The map the two aggregation loops build: its keys, in order, and its values.\<close>

lemma strikeMap_keys:
  "map fst (aggregatePuts puts (aggregateCalls calls [])) = strikeOrder calls puts"
proof -
  have "map fst (aggregateCalls calls []) = firstOccurrences ([] @ map strikePrice calls)"
    by (rule keys_aggregateCalls) (simp add: firstOccurrences_def)
  then have "map fst (aggregateCalls calls []) = firstOccurrences (map strikePrice calls)"
    by simp
  from keys_aggregatePuts [OF this] show ?thesis
    by (simp add: strikeOrder_def)
qed

lemma strikeMap_values:
  assumes "(K, e) \<in> set (aggregatePuts puts (aggregateCalls calls []))"
  shows "callOI e = specOpenInterest calls K" and "putOI e = specOpenInterest puts K"
proof -
  let ?m = "aggregatePuts puts (aggregateCalls calls [])"
  have "distinct (map fst ?m)"
    by (simp add: strikeMap_keys strikeOrder_def distinct_firstOccurrences)
  with assms have "map_of ?m K = Some e" by simp
  then have e: "mapGetOrZero ?m K = e" by (simp add: mapGetOrZero_def)
  have z: "mapGetOrZero [] K = \<lparr>callOI = 0, putOI = 0\<rparr>" by (simp add: mapGetOrZero_def)
  show "callOI e = specOpenInterest calls K"
    using values_aggregatePuts [of puts "aggregateCalls calls []" K]
      values_aggregateCalls [of calls "[]" K] by (simp add: e z)
  show "putOI e = specOpenInterest puts K"
    using values_aggregatePuts [of puts "aggregateCalls calls []" K]
      values_aggregateCalls [of calls "[]" K] by (simp add: e z)
qed

lemma set_strikeOrder: "set (strikeOrder calls puts) = specStrikes calls puts"
  by (simp add: strikeOrder_def set_firstOccurrences specStrikes_def)

section \<open>Max pain: the inner loop computes the specified pain\<close>

lemma painLoop_sum:
  "painLoop S m pain =
     pain + sum_list (map (\<lambda>(K, e). (if K < S then callOI e * (S - K) * 100 else 0)
                                  + (if K > S then putOI e * (K - S) * 100 else 0)) m)"
  by (induction m arbitrary: pain) (auto simp: Let_def)

lemma specPain_sum:
  "specPain calls puts S =
     (\<Sum>K \<in> specStrikes calls puts.
        (if K < S then specOpenInterest calls K * (S - K) * 100 else 0)
      + (if K > S then specOpenInterest puts K * (K - S) * 100 else 0))"
proof -
  have fin: "finite (specStrikes calls puts)" by (simp add: specStrikes_def)
  show ?thesis
    unfolding specPain_def
    by (simp add: sum.distrib sum.inter_filter [OF fin])
qed

lemma painLoop_specPain:
  "painLoop S (aggregatePuts puts (aggregateCalls calls [])) 0 = specPain calls puts S"
proof -
  let ?m = "aggregatePuts puts (aggregateCalls calls [])"
  let ?f = "\<lambda>K. (if K < S then specOpenInterest calls K * (S - K) * 100 else 0)
              + (if K > S then specOpenInterest puts K * (K - S) * 100 else 0)"
  have "map (\<lambda>(K, e). (if K < S then callOI e * (S - K) * 100 else 0)
                      + (if K > S then putOI e * (K - S) * 100 else 0)) ?m
        = map (\<lambda>p. ?f (fst p)) ?m"
    by (rule map_cong) (auto simp: strikeMap_values)
  also have "\<dots> = map ?f (map fst ?m)" by simp
  finally have "painLoop S ?m 0 = sum_list (map ?f (strikeOrder calls puts))"
    by (simp add: painLoop_sum strikeMap_keys)
  also have "\<dots> = sum ?f (set (strikeOrder calls puts))"
    by (rule sum_list_distinct_conv_sum_set)
       (simp add: strikeOrder_def distinct_firstOccurrences)
  finally show ?thesis by (simp add: set_strikeOrder specPain_sum)
qed

section \<open>Max pain: the outer loop keeps the first minimum\<close>

lemma strikeLoop_Some:
  assumes "strikeLoop m rest (s0, Some (painLoop s0 m 0)) = (s, mp)"
  shows "(s = s0 \<and> (\<forall>K \<in> set (map fst rest). painLoop s0 m 0 \<le> painLoop K m 0))
       \<or> (s \<in> set (map fst rest) \<and> painLoop s m 0 < painLoop s0 m 0
          \<and> (\<forall>K \<in> set (map fst rest). painLoop s m 0 \<le> painLoop K m 0)
          \<and> (\<forall>K \<in> set (takeWhile (\<lambda>K. K \<noteq> s) (map fst rest)).
                painLoop s m 0 < painLoop K m 0))"
  using assms
proof (induction rest arbitrary: s0)
  case Nil
  then show ?case by simp
next
  case (Cons p rest)
  obtain k e where p: "p = (k, e)" by (cases p)
  show ?case
  proof (cases "painLoop k m 0 < painLoop s0 m 0")
    case True
    with Cons.prems have "strikeLoop m rest (k, Some (painLoop k m 0)) = (s, mp)"
      by (simp add: p)
    from Cons.IH [OF this] True show ?thesis
      by (auto simp: p)
  next
    case False
    with Cons.prems have "strikeLoop m rest (s0, Some (painLoop s0 m 0)) = (s, mp)"
      by (simp add: p)
    from Cons.IH [OF this] False show ?thesis
      by (auto simp: p)
  qed
qed

lemma strikeLoop_first_minimum:
  assumes "rest \<noteq> []" and "strikeLoop m rest (s0, None) = (s, mp)"
  shows "s \<in> set (map fst rest)"
    and "\<forall>K \<in> set (map fst rest). painLoop s m 0 \<le> painLoop K m 0"
    and "\<forall>K \<in> set (takeWhile (\<lambda>K. K \<noteq> s) (map fst rest)). painLoop s m 0 < painLoop K m 0"
proof -
  from assms(1) obtain k e rest' where r: "rest = (k, e) # rest'"
    by (cases rest) auto
  with assms(2) have "strikeLoop m rest' (k, Some (painLoop k m 0)) = (s, mp)"
    by simp
  note h = strikeLoop_Some [OF this]
  from h show "s \<in> set (map fst rest)" by (auto simp: r)
  from h show "\<forall>K \<in> set (map fst rest). painLoop s m 0 \<le> painLoop K m 0"
    by (auto simp: r)
  from h show "\<forall>K \<in> set (takeWhile (\<lambda>K. K \<noteq> s) (map fst rest)).
                 painLoop s m 0 < painLoop K m 0"
    by (auto simp: r)
qed


text \<open>
  The result of \<open>calculateMaxPain\<close> on a chain with at least one strike: a strike of the
  chain of minimal pain, before which (in the order of first appearance, calls before puts)
  every strike has a strictly greater pain.
\<close>

lemma calculateMaxPain_first_minimum:
  assumes "specStrikes calls puts \<noteq> {}"
  shows "calculateMaxPain calls puts \<in> specStrikes calls puts"
    and "\<forall>K \<in> specStrikes calls puts.
           specPain calls puts (calculateMaxPain calls puts) \<le> specPain calls puts K"
    and "\<forall>K \<in> set (takeWhile (\<lambda>K. K \<noteq> calculateMaxPain calls puts) (strikeOrder calls puts)).
           specPain calls puts (calculateMaxPain calls puts) < specPain calls puts K"
proof -
  let ?m = "aggregatePuts puts (aggregateCalls calls [])"
  obtain s mp where l: "strikeLoop ?m ?m (0, None) = (s, mp)"
    by (cases "strikeLoop ?m ?m (0, None)")
  then have s: "calculateMaxPain calls puts = s"
    by (simp add: calculateMaxPain_def)
  have "map fst ?m \<noteq> []"
    using assms by (simp only: strikeMap_keys) (metis set_strikeOrder set_empty)
  then have ne: "?m \<noteq> []" by auto
  note h = strikeLoop_first_minimum [OF ne l, unfolded strikeMap_keys painLoop_specPain]
  from h(1) show "calculateMaxPain calls puts \<in> specStrikes calls puts"
    by (simp add: s set_strikeOrder)
  from h(2) show "\<forall>K \<in> specStrikes calls puts.
           specPain calls puts (calculateMaxPain calls puts) \<le> specPain calls puts K"
    by (simp add: s set_strikeOrder)
  from h(3) show "\<forall>K \<in> set (takeWhile (\<lambda>K. K \<noteq> calculateMaxPain calls puts)
                              (strikeOrder calls puts)).
           specPain calls puts (calculateMaxPain calls puts) < specPain calls puts K"
    by (simp add: s)
qed

section \<open>Max pain: the returned strike minimises the pain\<close>

text \<open>
  C1. For every chain, the strike returned by the max-pain calculation has a pain less than
  or equal to the pain at every strike in the set of distinct strikes of the two lists (and it
  is one of them when there is any), where the pain at settlement strike S is the sum over
  the strikes K < S of call open interest(K) \<times> (S \<minus> K) \<times> 100 plus the sum over the strikes
  K > S of put open interest(K) \<times> (K \<minus> S) \<times> 100. For calls at 640, 645, 650 with open
  interest 100, 50, 30 and puts at the same strikes with open interest 40, 60, 90 it
  returns 645.
\<close>

theorem calculateMaxPain_minimal:
  "(\<forall>S \<in> specStrikes calls puts.
      specPain calls puts (calculateMaxPain calls puts) \<le> specPain calls puts S)
   \<and> (specStrikes calls puts \<noteq> {} \<longrightarrow> calculateMaxPain calls puts \<in> specStrikes calls puts)
   \<and> calculateMaxPain
        [sampleContract CALL 640 1 1 0 100, sampleContract CALL 645 1 1 0 50,
         sampleContract CALL 650 1 1 0 30]
        [sampleContract PUT 640 1 1 0 40, sampleContract PUT 645 1 1 0 60,
         sampleContract PUT 650 1 1 0 90] = 645"
proof (intro conjI)
  show "\<forall>S \<in> specStrikes calls puts.
      specPain calls puts (calculateMaxPain calls puts) \<le> specPain calls puts S"
    using calculateMaxPain_first_minimum(2) [of calls puts] by blast
  show "specStrikes calls puts \<noteq> {} \<longrightarrow> calculateMaxPain calls puts \<in> specStrikes calls puts"
    using calculateMaxPain_first_minimum(1) [of calls puts] by blast
  show "calculateMaxPain
        [sampleContract CALL 640 1 1 0 100, sampleContract CALL 645 1 1 0 50,
         sampleContract CALL 650 1 1 0 30]
        [sampleContract PUT 640 1 1 0 40, sampleContract PUT 645 1 1 0 60,
         sampleContract PUT 650 1 1 0 90] = 645"
    by code_simp
qed

theorem calculateMaxPain_minimal_witness:
  "640 \<in> specStrikes scenarioCalls scenarioPuts
   \<and> specStrikes scenarioCalls scenarioPuts \<noteq> {}
   \<and> map (specPain scenarioCalls scenarioPuts) [640, 645, 650] = [120000, 95000, 125000]
   \<and> specPain scenarioCalls scenarioPuts (calculateMaxPain scenarioCalls scenarioPuts)
       \<le> specPain scenarioCalls scenarioPuts 640
   \<and> calculateMaxPain scenarioCalls scenarioPuts \<in> specStrikes scenarioCalls scenarioPuts"
proof -
  have m: "640 \<in> specStrikes scenarioCalls scenarioPuts"
    by (simp add: specStrikes_def scenarioCalls_def sampleContract_def)
  then have ne: "specStrikes scenarioCalls scenarioPuts \<noteq> {}" by blast
  have p: "map (specPain scenarioCalls scenarioPuts) [640, 645, 650] = [120000, 95000, 125000]"
    by code_simp
  from m ne p calculateMaxPain_minimal [of scenarioCalls scenarioPuts] show ?thesis by blast
qed

section \<open>Max pain: ties\<close>




end
